theory Spec2Isabelle
  imports Complex_Main "HOL-Library.AList"
begin

section \<open>Outbreak detection of backend/main.py\<close>

text \<open>
  The theory embeds \<^verbatim>\<open>detect_outbreaks\<close> of \<^verbatim>\<open>backend/main.py\<close>.

  Conventions of the embedding.
  \<^item> An instant (\<^verbatim>\<open>datetime\<close>, the column \<^verbatim>\<open>created_at\<close>) is an \<open>int\<close>: microseconds since
    the epoch, the resolution of a Python \<^verbatim>\<open>datetime\<close>. \<^verbatim>\<open>isoformat()\<close> is the identity on it.
  \<^item> A Python \<^verbatim>\<open>dict\<close> is an association list with distinct keys in insertion order:
    \<open>map_of\<close> reads a key, \<open>AList.update\<close> overwrites the value of a present key in place and
    appends an absent key at the end, as assignment to \<^verbatim>\<open>d[k]\<close> does.
  \<^item> Python's \<^verbatim>\<open>int\<close> is \<open>int\<close>. Python's \<^verbatim>\<open>float\<close> is idealised as \<open>real\<close>: the arithmetic of
    \<^verbatim>\<open>statistics.mean\<close>, \<^verbatim>\<open>statistics.stdev\<close>, the division and \<^verbatim>\<open>round\<close> are exact here, so
    nothing below speaks about binary rounding error.
  \<^item> Every exception that a line of the source can raise is a value of \<open>py_error\<close>, and a
    computation that can raise returns \<open>py_error + 'a\<close>.
\<close>

subsection \<open>Data\<close>

datatype py_error = StatisticsError | ZeroDivisionError

text \<open>A row of the table \<^verbatim>\<open>health_reports\<close>. The source reads the symptoms with
  \<^verbatim>\<open>report.get("symptoms", [])\<close>, so the key may be missing: \<open>None\<close>. A key that is present
  holds a list of strings, as \<^verbatim>\<open>HealthReportSubmission\<close> (\<^verbatim>\<open>List[str]\<close>, default \<^verbatim>\<open>[]\<close>)
  writes it.\<close>

record report =
  location :: string
  created_at :: int
  symptoms_opt :: "string list option"
  user_id :: string

text \<open>The value stored per location in \<^verbatim>\<open>current_by_location\<close>.\<close>

record current_data =
  count :: int
  symptoms :: "string list"
  user_ids :: "string list"

text \<open>The three strings that the source assigns to \<^verbatim>\<open>severity\<close>.\<close>

datatype severity = Low | Medium | High

record debug_info =
  baseline_mean :: real
  baseline_std_dev :: real
  current_count :: int
  z_score :: real

record alert =
  alert_location :: string
  affected_students :: nat
  risk_score :: real
  severity :: severity
  common_symptoms :: "string list"
  detection_time :: int
  debug :: debug_info

subsection \<open>Time windows and the two reads\<close>

definition timedelta_days :: "int \<Rightarrow> int" where
  "timedelta_days d = d * 86400000000"

text \<open>The filters \<^verbatim>\<open>.gte(column, v)\<close> and \<^verbatim>\<open>.lt(column, v)\<close> of the query builder, on the
  rows of the table.\<close>

definition gte :: "('r \<Rightarrow> int) \<Rightarrow> int \<Rightarrow> 'r list \<Rightarrow> 'r list" where
  "gte column v rows = filter (\<lambda>r. v \<le> column r) rows"

definition lt :: "('r \<Rightarrow> int) \<Rightarrow> int \<Rightarrow> 'r list \<Rightarrow> 'r list" where
  "lt column v rows = filter (\<lambda>r. column r < v) rows"

text \<open>Step 2 of the source: \<^verbatim>\<open>select("*").gte("created_at", baseline_start).lt("created_at",
  baseline_end)\<close>.\<close>

definition baseline_reports :: "int \<Rightarrow> report list \<Rightarrow> report list" where
  "baseline_reports now health_reports =
     (let baseline_start = now - timedelta_days 14;
          baseline_end = now - timedelta_days 7
      in lt created_at baseline_end (gte created_at baseline_start health_reports))"

text \<open>Step 3 of the source: \<^verbatim>\<open>select("*").gte("created_at", current_window_start)\<close>, and no
  other filter.\<close>

definition current_reports :: "int \<Rightarrow> report list \<Rightarrow> report list" where
  "current_reports now health_reports =
     (let current_window_start = now - timedelta_days 1
      in gte created_at current_window_start health_reports)"

subsection \<open>Aggregation\<close>

text \<open>\<^verbatim>\<open>report["created_at"][:10]\<close> is the \<^verbatim>\<open>YYYY-MM-DD\<close> prefix of the ISO string: the UTC
  calendar day, here the number of the day.\<close>

definition report_date :: "report \<Rightarrow> int" where
  "report_date r = created_at r div 86400000000"

text \<open>One iteration of the first loop of step 4. A missing location gets an empty inner
  dict, a missing date gets the count 0, then the count is incremented.\<close>

definition baseline_step ::
  "(string \<times> (int \<times> int) list) list \<Rightarrow> report \<Rightarrow> (string \<times> (int \<times> int) list) list" where
  "baseline_step baseline_by_location r =
     (let days = (case map_of baseline_by_location (location r) of None \<Rightarrow> [] | Some d \<Rightarrow> d);
          n = (case map_of days (report_date r) of None \<Rightarrow> 0 | Some c \<Rightarrow> c)
      in AList.update (location r) (AList.update (report_date r) (n + 1) days)
           baseline_by_location)"

primrec group_baseline ::
  "(string \<times> (int \<times> int) list) list \<Rightarrow> report list \<Rightarrow> (string \<times> (int \<times> int) list) list" where
  "group_baseline acc [] = acc"
| "group_baseline acc (r # rs) = group_baseline (baseline_step acc r) rs"

text \<open>\<^verbatim>\<open>report.get("symptoms", [])\<close>.\<close>

definition report_symptoms :: "report \<Rightarrow> string list" where
  "report_symptoms r = (case symptoms_opt r of None \<Rightarrow> [] | Some s \<Rightarrow> s)"

text \<open>One iteration of the second loop of step 4.\<close>

definition current_step ::
  "(string \<times> current_data) list \<Rightarrow> report \<Rightarrow> (string \<times> current_data) list" where
  "current_step current_by_location r =
     (let d = (case map_of current_by_location (location r) of
                 None \<Rightarrow> \<lparr>count = 0, symptoms = [], user_ids = []\<rparr>
               | Some d \<Rightarrow> d)
      in AList.update (location r)
           \<lparr>count = count d + 1,
            symptoms = symptoms d @ report_symptoms r,
            user_ids = user_ids d @ [user_id r]\<rparr>
           current_by_location)"

primrec group_current ::
  "(string \<times> current_data) list \<Rightarrow> report list \<Rightarrow> (string \<times> current_data) list" where
  "group_current acc [] = acc"
| "group_current acc (r # rs) = group_current (current_step acc r) rs"

subsection \<open>Statistics\<close>

text \<open>\<^verbatim>\<open>statistics.mean\<close> raises on empty data, \<^verbatim>\<open>statistics.stdev\<close> (the sample standard
  deviation, divisor \<open>n - 1\<close>) on fewer than two points, and \<^verbatim>\<open>/\<close> on a zero divisor.\<close>

definition statistics_mean :: "int list \<Rightarrow> py_error + real" where
  "statistics_mean data =
     (if length data < 1 then Inl StatisticsError
      else Inr (real_of_int (sum_list data) / real (length data)))"

definition statistics_stdev :: "int list \<Rightarrow> py_error + real" where
  "statistics_stdev data =
     (if length data < 2 then Inl StatisticsError
      else let xbar = real_of_int (sum_list data) / real (length data);
               ss = sum_list (map (\<lambda>x. (real_of_int x - xbar)\<^sup>2) data)
           in Inr (sqrt (ss / real (length data - 1))))"

definition truediv :: "real \<Rightarrow> real \<Rightarrow> py_error + real" where
  "truediv a b = (if b = 0 then Inl ZeroDivisionError else Inr (a / b))"

text \<open>Lines 267 to 275: the daily counts of a location, seven zeros without history, two
  zeros when fewer than two days have reports.\<close>

definition daily_counts_of :: "(string \<times> (int \<times> int) list) list \<Rightarrow> string \<Rightarrow> int list" where
  "daily_counts_of baseline_by_location loc =
     (let daily_counts = (case map_of baseline_by_location loc of
                            Some days \<Rightarrow> map snd days
                          | None \<Rightarrow> [0, 0, 0, 0, 0, 0, 0])
      in if length daily_counts < 2 then [0, 0] else daily_counts)"

text \<open>Lines 282 to 316: mean, standard deviation (1 in place of 0) and z-score, in this
  order.\<close>

definition location_stats :: "int \<Rightarrow> int list \<Rightarrow> py_error + (real \<times> real \<times> real)" where
  "location_stats cnt daily_counts =
     (case statistics_mean daily_counts of
        Inl e \<Rightarrow> Inl e
      | Inr mean \<Rightarrow>
         (case statistics_stdev daily_counts of
            Inl e \<Rightarrow> Inl e
          | Inr sd \<Rightarrow>
             (let std_dev = (if sd = 0 then 1 else sd)
              in case truediv (real_of_int cnt - mean) std_dev of
                   Inl e \<Rightarrow> Inl e
                 | Inr z \<Rightarrow> Inr (mean, std_dev, z))))"

subsection \<open>Alerts\<close>

text \<open>\<^verbatim>\<open>round(x, ndigits)\<close>: to the nearest multiple of \<open>10^-ndigits\<close>, a tie to the even
  one.\<close>

definition round_half_even :: "real \<Rightarrow> int" where
  "round_half_even x =
     (let f = \<lfloor>x\<rfloor>; d = x - of_int f
      in if d < 1 / 2 then f else if 1 / 2 < d then f + 1 else if even f then f else f + 1)"

definition py_round :: "real \<Rightarrow> nat \<Rightarrow> real" where
  "py_round x ndigits = of_int (round_half_even (x * 10 ^ ndigits)) / 10 ^ ndigits"

text \<open>Lines 350 to 352: the frequency dict of the symptoms, keys in order of first
  appearance.\<close>

definition count_symptom :: "(string \<times> int) list \<Rightarrow> string \<Rightarrow> (string \<times> int) list" where
  "count_symptom symptom_counts symptom =
     AList.update symptom
       ((case map_of symptom_counts symptom of None \<Rightarrow> 0 | Some c \<Rightarrow> c) + 1) symptom_counts"

primrec count_symptoms :: "(string \<times> int) list \<Rightarrow> string list \<Rightarrow> (string \<times> int) list" where
  "count_symptoms acc [] = acc"
| "count_symptoms acc (s # ss) = count_symptoms (count_symptom acc s) ss"

text \<open>\<^verbatim>\<open>sorted(items, key=lambda x: x[1], reverse=True)\<close>: Python's sort is stable, and with
  \<^verbatim>\<open>reverse=True\<close> items of equal key keep their order too; this is the stable sort by the
  negated key.\<close>

definition sorted_by_count_reverse :: "(string \<times> int) list \<Rightarrow> (string \<times> int) list" where
  "sorted_by_count_reverse items = sort_key (\<lambda>x. - snd x) items"

definition top_symptoms :: "string list \<Rightarrow> string list" where
  "top_symptoms syms =
     (let symptom_counts = count_symptoms [] syms;
          common = sorted_by_count_reverse symptom_counts
      in map fst (take 3 common))"

text \<open>Lines 327 to 376: the body of the threshold test, for a location that passed it.\<close>

definition make_alert ::
  "int \<Rightarrow> string \<Rightarrow> current_data \<Rightarrow> real \<Rightarrow> real \<Rightarrow> real \<Rightarrow> alert" where
  "make_alert now loc current mean std_dev z =
     (let risk_percentage = min (z * 20) 100;
          sev = (if 3.5 < z then High else if 2.5 < z then Medium else Low);
          unique_students = card (set (user_ids current))
      in \<lparr>alert_location = loc,
          affected_students = unique_students,
          risk_score = py_round risk_percentage 1,
          severity = sev,
          common_symptoms = top_symptoms (symptoms current),
          detection_time = now,
          debug = \<lparr>baseline_mean = py_round mean 2,
                   baseline_std_dev = py_round std_dev 2,
                   current_count = count current,
                   z_score = py_round z 2\<rparr>\<rparr>)"

text \<open>One iteration of the loop of step 5 (lines 263 to 376): \<open>None\<close> when the location
  does not pass the threshold.\<close>

definition score_location ::
  "int \<Rightarrow> (string \<times> (int \<times> int) list) list \<Rightarrow> string \<times> current_data \<Rightarrow> py_error + alert option"
  where
  "score_location now baseline_by_location item =
     (let loc = fst item; current = snd item
      in case location_stats (count current) (daily_counts_of baseline_by_location loc) of
           Inl e \<Rightarrow> Inl e
         | Inr (mean, std_dev, z) \<Rightarrow>
             if 2 < z then Inr (Some (make_alert now loc current mean std_dev z))
             else Inr None)"

primrec score_locations ::
  "int \<Rightarrow> (string \<times> (int \<times> int) list) list \<Rightarrow> alert list \<Rightarrow> (string \<times> current_data) list
     \<Rightarrow> py_error + alert list" where
  "score_locations now baseline_by_location alerts [] = Inr alerts"
| "score_locations now baseline_by_location alerts (item # items) =
     (case score_location now baseline_by_location item of
        Inl e \<Rightarrow> Inl e
      | Inr None \<Rightarrow> score_locations now baseline_by_location alerts items
      | Inr (Some a) \<Rightarrow> score_locations now baseline_by_location (alerts @ [a]) items)"

text \<open>The whole function, with the instant \<^verbatim>\<open>now\<close> and the rows of the table as
  arguments.\<close>

definition detect_outbreaks :: "int \<Rightarrow> report list \<Rightarrow> py_error + alert list" where
  "detect_outbreaks now health_reports =
     (let baseline_by_location = group_baseline [] (baseline_reports now health_reports);
          current_by_location = group_current [] (current_reports now health_reports)
      in score_locations now baseline_by_location [] current_by_location)"

subsection \<open>Notions used to state the properties\<close>

text \<open>The order of the severity tiers: Low, Medium, High.\<close>

primrec severity_rank :: "severity \<Rightarrow> nat" where
  "severity_rank Low = 0"
| "severity_rank Medium = 1"
| "severity_rank High = 2"

text \<open>The distinct elements of a list, each at the place of its first occurrence.\<close>

primrec first_seen :: "'a list \<Rightarrow> 'a list" where
  "first_seen [] = []"
| "first_seen (x # xs) = x # filter (\<lambda>y. y \<noteq> x) (first_seen xs)"

text \<open>The position of the first occurrence of an element in a list (the length of the
  list for an element that does not occur).\<close>

definition first_index :: "'a list \<Rightarrow> 'a \<Rightarrow> nat" where
  "first_index xs x = length (takeWhile (\<lambda>y. y \<noteq> x) xs)"

subsection \<open>A table of reports\<close>

text \<open>
  A run at the instant of day 14. Two reports at Hostel A fall into the baseline window
  (the first one on its lower edge), the report at the Library lies on the upper edge of the
  baseline window and is read by neither query, and the report at the Canteen lies on the
  lower edge of the current window. The locations of the current window first appear in the
  order Canteen, Hostel B, Hostel A.
\<close>

definition example_now :: int where
  "example_now = 1209600000000"

definition example_reports :: "report list" where
  "example_reports =
     [\<lparr>location = ''Hostel A'', created_at = 0,
        symptoms_opt = Some [''fatigue''], user_id = ''u1''\<rparr>,
      \<lparr>location = ''Hostel A'', created_at = 86400000000,
        symptoms_opt = Some [], user_id = ''u2''\<rparr>,
      \<lparr>location = ''Library'', created_at = 604800000000,
        symptoms_opt = Some [''cough''], user_id = ''u7''\<rparr>,
      \<lparr>location = ''Canteen'', created_at = 1123200000000,
        symptoms_opt = Some [''cough''], user_id = ''u3''\<rparr>,
      \<lparr>location = ''Hostel B'', created_at = 1123200000001,
        symptoms_opt = Some [''fever'', ''cough''], user_id = ''u4''\<rparr>,
      \<lparr>location = ''Hostel A'', created_at = 1130000000000,
        symptoms_opt = Some [''cough'', ''fever''], user_id = ''u1''\<rparr>,
      \<lparr>location = ''Hostel B'', created_at = 1140000000000,
        symptoms_opt = None, user_id = ''u4''\<rparr>,
      \<lparr>location = ''Hostel A'', created_at = 1150000000000,
        symptoms_opt = Some [''fever''], user_id = ''u2''\<rparr>,
      \<lparr>location = ''Hostel A'', created_at = 1160000000000,
        symptoms_opt = Some [''headache'', ''fever''], user_id = ''u1''\<rparr>,
      \<lparr>location = ''Hostel B'', created_at = 1170000000000,
        symptoms_opt = Some [''fever'', ''cough''], user_id = ''u5''\<rparr>,
      \<lparr>location = ''Hostel A'', created_at = 1180000000000,
        symptoms_opt = Some [''cough''], user_id = ''u6''\<rparr>]"

text \<open>The two alerts of this run.\<close>

definition example_alert_B :: alert where
  "example_alert_B =
     \<lparr>alert_location = ''Hostel B'', affected_students = 2, risk_score = 60,
      severity = Medium, common_symptoms = [''fever'', ''cough''],
      detection_time = 1209600000000,
      debug = \<lparr>baseline_mean = 0, baseline_std_dev = 1, current_count = 3, z_score = 3\<rparr>\<rparr>"

definition example_alert_A :: alert where
  "example_alert_A =
     \<lparr>alert_location = ''Hostel A'', affected_students = 3, risk_score = 60,
      severity = Medium, common_symptoms = [''fever'', ''cough'', ''headache''],
      detection_time = 1209600000000,
      debug = \<lparr>baseline_mean = 1, baseline_std_dev = 1, current_count = 4, z_score = 3\<rparr>\<rparr>"

section \<open>Properties\<close>

subsection \<open>Statistics and rounding\<close>

lemma daily_counts_of_length: "2 \<le> length (daily_counts_of bl loc)"
  by (simp add: daily_counts_of_def Let_def split: option.split)

lemma statistics_stdev_nonneg:
  assumes "statistics_stdev dc = Inr sd"
  shows "0 \<le> sd"
proof -
  have "0 \<le> sum_list (map (\<lambda>x. (real_of_int x - m)\<^sup>2) dc)" for m
    by (rule sum_list_nonneg) auto
  with assms show ?thesis
    by (auto simp: statistics_stdev_def Let_def split: if_splits)
qed

lemma location_stats_total:
  assumes "2 \<le> length dc"
  shows "\<exists>m s. 0 < s \<and> (\<forall>c. location_stats c dc = Inr (m, s, (real_of_int c - m) / s))"
proof -
  obtain m where m: "statistics_mean dc = Inr m"
    using assms by (cases dc) (auto simp: statistics_mean_def)
  obtain sd where sd: "statistics_stdev dc = Inr sd"
    using assms by (auto simp: statistics_stdev_def Let_def)
  have nn: "0 \<le> sd" using sd by (rule statistics_stdev_nonneg)
  define s where "s = (if sd = 0 then 1 else sd)"
  have pos: "0 < s" using nn by (simp add: s_def)
  have "location_stats c dc = Inr (m, s, (real_of_int c - m) / s)" for c
    using pos by (simp add: location_stats_def m sd truediv_def s_def Let_def)
  with pos show ?thesis by blast
qed

lemma round_half_even_bounds: "\<lfloor>x\<rfloor> \<le> round_half_even x \<and> round_half_even x \<le> \<lfloor>x\<rfloor> + 1"
  by (simp add: round_half_even_def Let_def)

lemma round_half_even_mono:
  assumes "x \<le> y"
  shows "round_half_even x \<le> round_half_even y"
proof (cases "\<lfloor>x\<rfloor> = \<lfloor>y\<rfloor>")
  case True
  with assms show ?thesis
    by (auto simp: round_half_even_def Let_def)
next
  case False
  with assms have "\<lfloor>x\<rfloor> + 1 \<le> \<lfloor>y\<rfloor>"
    using floor_mono [OF assms] by linarith
  then show ?thesis
    using round_half_even_bounds [of x] round_half_even_bounds [of y] by linarith
qed

lemma round_half_even_of_int: "round_half_even (of_int k) = k"
  by (simp add: round_half_even_def)

lemma py_round_mono: "x \<le> y \<Longrightarrow> py_round x n \<le> py_round y n"
  by (simp add: py_round_def divide_right_mono round_half_even_mono)

lemma round_half_even_close: "\<bar>of_int (round_half_even x) - x\<bar> \<le> 1 / 2"
  by (auto simp: round_half_even_def Let_def abs_le_iff)

lemma py_round_close: "\<bar>py_round x 1 - x\<bar> \<le> 1 / 20"
proof -
  define r where "r = round_half_even (x * 10)"
  have e: "py_round x 1 = of_int r / 10"
    by (simp add: py_round_def r_def)
  have "\<bar>of_int r - x * 10\<bar> \<le> 1 / 2"
    unfolding r_def by (rule round_half_even_close)
  then show ?thesis
    unfolding e by (simp add: abs_le_iff field_simps)
qed

subsection \<open>The scoring loop never raises\<close>

lemma score_location_total:
  "\<exists>r. score_location now bl item = Inr r"
proof -
  obtain m s where "location_stats (count (snd item)) (daily_counts_of bl (fst item))
      = Inr (m, s, (real_of_int (count (snd item)) - m) / s)"
    using location_stats_total [OF daily_counts_of_length] by blast
  then show ?thesis
    by (simp add: score_location_def Let_def)
qed

lemma score_locations_total:
  "\<exists>alerts. score_locations now bl acc items = Inr alerts"
proof (induction items arbitrary: acc)
  case Nil
  show ?case by simp
next
  case (Cons item items)
  obtain r where r: "score_location now bl item = Inr r"
    using score_location_total by blast
  show ?case
    using Cons.IH by (cases r) (simp_all add: r)
qed

lemma detect_outbreaks_total:
  "\<exists>alerts. detect_outbreaks now health_reports = Inr alerts"
  by (simp add: detect_outbreaks_def Let_def score_locations_total)

lemma score_location_eq:
  assumes "location_stats (count cur) (daily_counts_of bl loc) = Inr (m, s, z)"
  shows "score_location now bl (loc, cur) =
           Inr (if 2 < z then Some (make_alert now loc cur m s z) else None)"
  using assms by (simp add: score_location_def)

lemma score_location_SomeD:
  assumes "score_location now bl (loc, cur) = Inr (Some a)"
  obtains m s z where "location_stats (count cur) (daily_counts_of bl loc) = Inr (m, s, z)"
    and "2 < z" and "a = make_alert now loc cur m s z"
proof -
  obtain m s z where st: "location_stats (count cur) (daily_counts_of bl loc) = Inr (m, s, z)"
    using location_stats_total [OF daily_counts_of_length, of bl loc] by blast
  from assms have "2 < z" and "a = make_alert now loc cur m s z"
    by (auto simp: score_location_eq [OF st] split: if_splits)
  with st that show thesis by blast
qed

lemma severity_make_alert:
  "severity (make_alert now loc cur m s z) =
     (if 3.5 < z then High else if 2.5 < z then Medium else Low)"
  by (simp add: make_alert_def Let_def)

lemma risk_score_make_alert:
  "risk_score (make_alert now loc cur m s z) = py_round (min (z * 20) 100) 1"
  by (simp add: make_alert_def Let_def)

lemma stats_seven_twos:
  "statistics_mean [2, 2, 2, 2, 2, 2, 2] = Inr 2"
  "statistics_stdev [2, 2, 2, 2, 2, 2, 2] = Inr 0"
  "location_stats 10 [2, 2, 2, 2, 2, 2, 2] = Inr (2, 1, 8)"
  by (simp_all add: location_stats_def statistics_mean_def statistics_stdev_def truediv_def)

lemma stats_seven_zeros:
  "statistics_mean [0, 0, 0, 0, 0, 0, 0] = Inr 0"
  "statistics_stdev [0, 0, 0, 0, 0, 0, 0] = Inr 0"
  "location_stats c [0, 0, 0, 0, 0, 0, 0] = Inr (0, 1, real_of_int c)"
  by (simp_all add: location_stats_def statistics_mean_def statistics_stdev_def truediv_def)

lemma py_round_of_int: "py_round (of_int k) n = of_int k"
proof -
  have "(of_int k :: real) * 10 ^ n = of_int (k * 10 ^ n)" by simp
  then have "round_half_even (of_int k * 10 ^ n) = k * 10 ^ n"
    by (simp only: round_half_even_of_int)
  then show ?thesis by (simp add: py_round_def)
qed

subsection \<open>Worked examples\<close>

text \<open>
  Claim C3. A location whose baseline daily counts are \<open>[2,2,2,2,2,2,2]\<close> and whose current
  count is 10 has mean 2, sample standard deviation 0, replaced by 1, and z-score 8; the
  location is reported with risk score 100 and severity High.
\<close>

theorem C3_constant_baseline_example:
  assumes "map_of baseline_by_location loc = Some days"
    and "map snd days = [2, 2, 2, 2, 2, 2, 2]"
    and "count current = 10"
  shows "daily_counts_of baseline_by_location loc = [2, 2, 2, 2, 2, 2, 2]
       \<and> statistics_mean (daily_counts_of baseline_by_location loc) = Inr 2
       \<and> statistics_stdev (daily_counts_of baseline_by_location loc) = Inr 0
       \<and> location_stats (count current) (daily_counts_of baseline_by_location loc) = Inr (2, 1, 8)
       \<and> (\<exists>a. score_location now baseline_by_location (loc, current) = Inr (Some a)
              \<and> risk_score a = 100 \<and> severity a = High)"
proof -
  have dc: "daily_counts_of baseline_by_location loc = [2, 2, 2, 2, 2, 2, 2]"
    using assms(1,2) by (simp add: daily_counts_of_def)
  have st: "location_stats (count current) (daily_counts_of baseline_by_location loc)
      = Inr (2, 1, 8)"
    by (simp add: dc assms(3) stats_seven_twos)
  have "py_round (min (8 * 20) 100) 1 = 100"
    using py_round_of_int [of 100 1] by simp
  then have "risk_score (make_alert now loc current 2 1 8) = 100"
    by (simp add: risk_score_make_alert)
  moreover have "severity (make_alert now loc current 2 1 8) = High"
    by (simp add: severity_make_alert)
  ultimately show ?thesis
    using score_location_eq [OF st, of now] by (simp add: dc stats_seven_twos assms(3))
qed

text \<open>The example itself, a baseline dict with seven days of two reports each.\<close>

theorem C3_constant_baseline_example_witness:
  "map_of [(''Hostel A'', [(1, 2), (2, 2), (3, 2), (4, 2), (5, 2), (6, 2), (7, 2 :: int)])]
      ''Hostel A'' = Some [(1 :: int, 2), (2, 2), (3, 2), (4, 2), (5, 2), (6, 2), (7, 2)]
   \<and> (\<exists>a. score_location 0
            [(''Hostel A'', [(1, 2), (2, 2), (3, 2), (4, 2), (5, 2), (6, 2), (7, 2)])]
            (''Hostel A'', \<lparr>count = 10, symptoms = [], user_ids = []\<rparr>) = Inr (Some a)
          \<and> risk_score a = 100 \<and> severity a = High)"
  using C3_constant_baseline_example
    [of "[(''Hostel A'', [(1, 2), (2, 2), (3, 2), (4, 2), (5, 2), (6, 2), (7, 2)])]"
      "''Hostel A''" "[(1, 2), (2, 2), (3, 2), (4, 2), (5, 2), (6, 2), (7, 2)]"
      "\<lparr>count = 10, symptoms = [], user_ids = []\<rparr>" 0]
  by simp

text \<open>
  Claim C4. A location of the current window without baseline reports is scored against
  seven zero daily counts: the mean is 0, the standard deviation 0 is replaced by 1 and the
  z-score is the current count. A current count of 1 gives no alert; a current count of 3
  gives an alert of severity Medium with risk score 60.
\<close>

theorem C4_no_baseline_history:
  assumes "map_of baseline_by_location loc = None"
  shows "daily_counts_of baseline_by_location loc = [0, 0, 0, 0, 0, 0, 0]
       \<and> statistics_mean (daily_counts_of baseline_by_location loc) = Inr 0
       \<and> statistics_stdev (daily_counts_of baseline_by_location loc) = Inr 0
       \<and> location_stats (count current) (daily_counts_of baseline_by_location loc)
           = Inr (0, 1, real_of_int (count current))
       \<and> (count current = 1 \<longrightarrow>
            score_location now baseline_by_location (loc, current) = Inr None)
       \<and> (count current = 3 \<longrightarrow>
            (\<exists>a. score_location now baseline_by_location (loc, current) = Inr (Some a)
               \<and> severity a = Medium \<and> risk_score a = 60))"
proof -
  have dc: "daily_counts_of baseline_by_location loc = [0, 0, 0, 0, 0, 0, 0]"
    using assms by (simp add: daily_counts_of_def)
  have st: "location_stats (count current) (daily_counts_of baseline_by_location loc)
      = Inr (0, 1, real_of_int (count current))"
    by (simp add: dc stats_seven_zeros)
  have one: "score_location now baseline_by_location (loc, current) = Inr None"
    if "count current = 1"
    using score_location_eq [OF st, of now] that by simp
  have "py_round (min (3 * 20) 100) 1 = 60"
    using py_round_of_int [of 60 1] by simp
  then have three: "\<exists>a. score_location now baseline_by_location (loc, current) = Inr (Some a)
      \<and> severity a = Medium \<and> risk_score a = 60"
    if "count current = 3"
    using score_location_eq [OF st, of now] that
    by (simp add: severity_make_alert risk_score_make_alert)
  show ?thesis
    using dc st one three by (simp add: stats_seven_zeros)
qed

text \<open>The two examples of the claim, with an empty baseline dict.\<close>

theorem C4_no_baseline_history_witness:
  "map_of ([] :: (string \<times> (int \<times> int) list) list) ''Hostel B'' = None
   \<and> score_location 0 [] (''Hostel B'', \<lparr>count = 1, symptoms = [], user_ids = [''u'']\<rparr>)
       = Inr None
   \<and> (\<exists>a. score_location 0 []
            (''Hostel B'', \<lparr>count = 3, symptoms = [], user_ids = [''u'', ''v'', ''w'']\<rparr>)
            = Inr (Some a)
          \<and> severity a = Medium \<and> risk_score a = 60)"
  using C4_no_baseline_history
    [of "[]" "''Hostel B''" "\<lparr>count = 1, symptoms = [], user_ids = [''u'']\<rparr>" 0]
    C4_no_baseline_history
    [of "[]" "''Hostel B''" "\<lparr>count = 3, symptoms = [], user_ids = [''u'', ''v'', ''w'']\<rparr>" 0]
  by simp

subsection \<open>Degenerate statistics\<close>

text \<open>
  Claim C6. The z-score is always defined: a sequence of daily counts with fewer than two
  entries is replaced by two zeros before the statistics are computed, a standard deviation
  of 0 is replaced by 1, so that neither \<open>statistics_mean\<close> nor \<open>statistics_stdev\<close> raises,
  the divisor is not zero, and the whole of \<open>detect_outbreaks\<close> returns a list of alerts.
\<close>

theorem C6_z_score_always_defined:
  "2 \<le> length (daily_counts_of baseline_by_location loc)
   \<and> (\<forall>days. map_of baseline_by_location loc = Some days \<and> length days < 2 \<longrightarrow>
         daily_counts_of baseline_by_location loc = [0, 0])
   \<and> (\<exists>mean sd std_dev.
         statistics_mean (daily_counts_of baseline_by_location loc) = Inr mean
       \<and> statistics_stdev (daily_counts_of baseline_by_location loc) = Inr sd
       \<and> std_dev = (if sd = 0 then 1 else sd)
       \<and> std_dev \<noteq> 0
       \<and> location_stats cnt (daily_counts_of baseline_by_location loc)
           = Inr (mean, std_dev, (real_of_int cnt - mean) / std_dev))
   \<and> (\<exists>r. score_location now baseline_by_location (loc, current) = Inr r)
   \<and> (\<exists>alerts. detect_outbreaks now health_reports = Inr alerts)"
proof -
  let ?dc = "daily_counts_of baseline_by_location loc"
  have len: "2 \<le> length ?dc" by (rule daily_counts_of_length)
  have short: "?dc = [0, 0]" if "map_of baseline_by_location loc = Some days" "length days < 2"
    for days
    using that by (simp add: daily_counts_of_def)
  obtain mean where mean: "statistics_mean ?dc = Inr mean"
    using len by (cases ?dc) (auto simp: statistics_mean_def)
  obtain sd where sd: "statistics_stdev ?dc = Inr sd"
    using len by (auto simp: statistics_stdev_def Let_def)
  have "0 \<le> sd" using sd by (rule statistics_stdev_nonneg)
  then have nz: "(if sd = 0 then 1 else sd) \<noteq> 0" by simp
  have "location_stats cnt ?dc
      = Inr (mean, (if sd = 0 then 1 else sd), (real_of_int cnt - mean) / (if sd = 0 then 1 else sd))"
    using nz by (simp add: location_stats_def mean sd truediv_def Let_def)
  with mean sd nz have stats: "\<exists>mean sd std_dev.
         statistics_mean ?dc = Inr mean \<and> statistics_stdev ?dc = Inr sd
       \<and> std_dev = (if sd = 0 then 1 else sd) \<and> std_dev \<noteq> 0
       \<and> location_stats cnt ?dc = Inr (mean, std_dev, (real_of_int cnt - mean) / std_dev)"
    by blast
  show ?thesis
    using len short stats score_location_total detect_outbreaks_total by blast
qed

text \<open>A location with a single day of history, and a table with one report.\<close>

theorem C6_z_score_always_defined_witness:
  "daily_counts_of [(''Hostel A'', [(1, 5)])] ''Hostel A'' = [0, 0]
   \<and> location_stats 4 (daily_counts_of [(''Hostel A'', [(1, 5)])] ''Hostel A'') = Inr (0, 1, 4)
   \<and> (\<exists>alerts. detect_outbreaks 86400000000
         [\<lparr>location = ''Hostel A'', created_at = 86400000000, symptoms_opt = None,
           user_id = ''u''\<rparr>] = Inr alerts)"
proof -
  let ?bl = "[(''Hostel A'', [(1 :: int, 5 :: int)])]"
  note c6 = C6_z_score_always_defined [where baseline_by_location = ?bl
      and loc = "''Hostel A''" and cnt = 4 and now = 86400000000
      and current = "\<lparr>count = 4, symptoms = [], user_ids = []\<rparr>"
      and health_reports = "[\<lparr>location = ''Hostel A'', created_at = 86400000000,
         symptoms_opt = None, user_id = ''u''\<rparr>]"]
  have dc: "daily_counts_of ?bl ''Hostel A'' = [0, 0]"
    using c6 by simp
  have "location_stats 4 [0, 0] = Inr (0, 1, 4)"
    by (simp add: location_stats_def statistics_mean_def statistics_stdev_def truediv_def)
  with dc c6 show ?thesis by simp
qed

subsection \<open>Threshold, severity, risk score\<close>

text \<open>
  Claim C2. A scored location yields an alert if and only if its z-score is greater than 2;
  at or below 2 it yields no alert and no error. The severity of the alert is High exactly
  when the z-score is above 3.5, Medium exactly when it is above 2.5 and at most 3.5, and
  Low exactly when it is above 2 and at most 2.5.
\<close>

theorem C2_threshold_and_severity:
  "\<exists>mean std_dev z.
      location_stats (count current) (daily_counts_of baseline_by_location loc)
        = Inr (mean, std_dev, z)
    \<and> ((\<exists>a. score_location now baseline_by_location (loc, current) = Inr (Some a))
          \<longleftrightarrow> 2 < z)
    \<and> (z \<le> 2 \<longrightarrow> score_location now baseline_by_location (loc, current) = Inr None)
    \<and> (\<forall>a. score_location now baseline_by_location (loc, current) = Inr (Some a) \<longrightarrow>
           (severity a = High \<longleftrightarrow> 3.5 < z)
         \<and> (severity a = Medium \<longleftrightarrow> 2.5 < z \<and> z \<le> 3.5)
         \<and> (severity a = Low \<longleftrightarrow> 2 < z \<and> z \<le> 2.5))"
proof -
  obtain m s where st: "location_stats (count current) (daily_counts_of baseline_by_location loc)
      = Inr (m, s, (real_of_int (count current) - m) / s)"
    using location_stats_total [OF daily_counts_of_length] by blast
  let ?z = "(real_of_int (count current) - m) / s"
  note eq = score_location_eq [OF st, of now]
  have iff: "(\<exists>a. score_location now baseline_by_location (loc, current) = Inr (Some a))
      \<longleftrightarrow> 2 < ?z"
    by (simp add: eq)
  have none: "?z \<le> 2 \<longrightarrow> score_location now baseline_by_location (loc, current) = Inr None"
    by (simp add: eq)
  have sev: "(severity a = High \<longleftrightarrow> 3.5 < ?z)
         \<and> (severity a = Medium \<longleftrightarrow> 2.5 < ?z \<and> ?z \<le> 3.5)
         \<and> (severity a = Low \<longleftrightarrow> 2 < ?z \<and> ?z \<le> 2.5)"
    if "score_location now baseline_by_location (loc, current) = Inr (Some a)" for a
  proof -
    from that have z: "2 < ?z" and a: "a = make_alert now loc current m s ?z"
      by (auto simp: eq split: if_splits)
    show ?thesis
      unfolding a severity_make_alert using z by auto
  qed
  show ?thesis
    using st iff none sev by blast
qed

text \<open>Without history the z-score is the count: 3 reports give Medium, 2 reports give no
  alert.\<close>

theorem C2_threshold_and_severity_witness:
  "(\<exists>a. score_location 0 [] (''Hostel B'', \<lparr>count = 3, symptoms = [], user_ids = []\<rparr>)
          = Inr (Some a) \<and> severity a = Medium)
   \<and> score_location 0 [] (''Hostel B'', \<lparr>count = 2, symptoms = [], user_ids = []\<rparr>)
       = Inr None"
proof -
  have st: "location_stats c (daily_counts_of [] ''Hostel B'') = Inr (0, 1, real_of_int c)" for c
    by (simp add: daily_counts_of_def stats_seven_zeros)
  have three: "\<exists>a. score_location 0 [] (''Hostel B'', \<lparr>count = 3, symptoms = [], user_ids = []\<rparr>)
          = Inr (Some a) \<and> severity a = Medium"
    using C2_threshold_and_severity [of "\<lparr>count = 3, symptoms = [], user_ids = []\<rparr>" "[]"
        "''Hostel B''" 0] st [of 3]
    by auto
  have two: "score_location 0 [] (''Hostel B'', \<lparr>count = 2, symptoms = [], user_ids = []\<rparr>)
       = Inr None"
    using C2_threshold_and_severity [of "\<lparr>count = 2, symptoms = [], user_ids = []\<rparr>" "[]"
        "''Hostel B''" 0] st [of 2]
    by auto
  show ?thesis using three two by simp
qed

text \<open>
  Claim C5. With the baseline daily counts of a location fixed, a greater current count
  has a greater z-score; and if the smaller count is reported, the greater one is reported
  too, with a risk score and a severity tier that are not smaller.
\<close>

theorem C5_monotone_in_current_count:
  assumes "count current1 < count current2"
  shows "\<exists>mean std_dev z1 z2.
      location_stats (count current1) (daily_counts_of baseline_by_location loc)
        = Inr (mean, std_dev, z1)
    \<and> location_stats (count current2) (daily_counts_of baseline_by_location loc)
        = Inr (mean, std_dev, z2)
    \<and> z1 < z2
    \<and> (\<forall>a1. score_location now baseline_by_location (loc, current1) = Inr (Some a1) \<longrightarrow>
          (\<exists>a2. score_location now baseline_by_location (loc, current2) = Inr (Some a2)
             \<and> risk_score a1 \<le> risk_score a2
             \<and> severity_rank (severity a1) \<le> severity_rank (severity a2)))"
proof -
  obtain m s where pos: "0 < s"
    and st: "\<And>c. location_stats c (daily_counts_of baseline_by_location loc)
      = Inr (m, s, (real_of_int c - m) / s)"
    using location_stats_total [OF daily_counts_of_length] by blast
  let ?z1 = "(real_of_int (count current1) - m) / s"
  let ?z2 = "(real_of_int (count current2) - m) / s"
  have lt: "?z1 < ?z2"
    using assms pos by (simp add: divide_strict_right_mono)
  have step: "\<exists>a2. score_location now baseline_by_location (loc, current2) = Inr (Some a2)
             \<and> risk_score a1 \<le> risk_score a2
             \<and> severity_rank (severity a1) \<le> severity_rank (severity a2)"
    if "score_location now baseline_by_location (loc, current1) = Inr (Some a1)" for a1
  proof -
    from that have z1: "2 < ?z1" and a1: "a1 = make_alert now loc current1 m s ?z1"
      by (auto simp: score_location_eq [OF st] split: if_splits)
    have z2: "2 < ?z2" using z1 lt by linarith
    have "min (u * 20) 100 \<le> min (v * 20) 100" if "u < v" for u v :: real
      using that by (simp add: min_def)
    from this [OF lt] have risk: "risk_score a1 \<le> risk_score (make_alert now loc current2 m s ?z2)"
      unfolding a1 risk_score_make_alert by (rule py_round_mono)
    have "severity_rank (if 3.5 < u then High else if 2.5 < u then Medium else Low)
        \<le> severity_rank (if 3.5 < v then High else if 2.5 < v then Medium else Low)"
      if "u < v" for u v :: real
      using that by auto
    from this [OF lt] have sev: "severity_rank (severity a1)
        \<le> severity_rank (severity (make_alert now loc current2 m s ?z2))"
      unfolding a1 severity_make_alert .
    show ?thesis
      using z2 risk sev by (simp add: score_location_eq [OF st])
  qed
  show ?thesis
    using st lt step by blast
qed

text \<open>Without history, 3 reports and then 4 reports: Medium with risk 60, then High.\<close>

theorem C5_monotone_in_current_count_witness:
  "count \<lparr>count = 3, symptoms = [], user_ids = []\<rparr>
     < count \<lparr>count = 4, symptoms = [], user_ids = []\<rparr>
   \<and> (\<exists>a2. score_location 0 [] (''Hostel B'', \<lparr>count = 4, symptoms = [], user_ids = []\<rparr>)
          = Inr (Some a2)
        \<and> 60 \<le> risk_score a2 \<and> 1 \<le> severity_rank (severity a2))"
proof -
  have lt: "count \<lparr>count = 3, symptoms = [], user_ids = []\<rparr>
     < count \<lparr>count = 4, symptoms = [], user_ids = []\<rparr>"
    by simp
  have st: "location_stats 3 (daily_counts_of [] ''Hostel B'') = Inr (0, 1, 3)"
    using stats_seven_zeros(3) [of 3] by (simp add: daily_counts_of_def)
  have "py_round (min (3 * 20) 100) 1 = 60"
    using py_round_of_int [of 60 1] by simp
  then have a1: "score_location 0 [] (''Hostel B'', \<lparr>count = 3, symptoms = [], user_ids = []\<rparr>)
      = Inr (Some (make_alert 0 ''Hostel B'' \<lparr>count = 3, symptoms = [], user_ids = []\<rparr> 0 1 3))"
    and r1: "risk_score (make_alert 0 ''Hostel B'' \<lparr>count = 3, symptoms = [], user_ids = []\<rparr> 0 1 3) = 60"
    and s1: "severity (make_alert 0 ''Hostel B'' \<lparr>count = 3, symptoms = [], user_ids = []\<rparr> 0 1 3) = Medium"
    using score_location_eq [of "\<lparr>count = 3, symptoms = [], user_ids = []\<rparr>" "[]" "''Hostel B''" 0 1 3 0] st
    by (simp_all add: risk_score_make_alert severity_make_alert)
  show ?thesis
    using C5_monotone_in_current_count [OF lt, of "[]" "''Hostel B''" 0] a1 r1 s1 lt
    by auto
qed

subsection \<open>Dicts filled by a loop\<close>

lemma first_seen_filter: "first_seen (filter P xs) = filter P (first_seen xs)"
  by (induction xs) (auto simp: filter_empty_conv intro: filter_cong)

lemma set_first_seen: "set (first_seen xs) = set xs"
  by (induction xs) auto

lemma distinct_first_seen: "distinct (first_seen xs)"
  by (induction xs) auto

text \<open>A loop whose step writes the key of the element: the keys of the result are the
  keys of the start, then the new keys in the order of their first occurrence.\<close>

lemma keys_foldl_update:
  assumes "\<And>al x. map fst (step al x)
     = (if key x \<in> set (map fst al) then map fst al else map fst al @ [key x])"
  shows "map fst (foldl step acc xs)
     = map fst acc @ first_seen (filter (\<lambda>k. k \<notin> set (map fst acc)) (map key xs))"
proof (induction xs arbitrary: acc)
  case Nil
  show ?case by simp
next
  case (Cons x xs)
  show ?case
  proof (cases "key x \<in> set (map fst acc)")
    case True
    then have "map fst (step acc x) = map fst acc"
      by (simp add: assms)
    with True Cons.IH [of "step acc x"] show ?thesis by simp
  next
    case False
    then have keys: "map fst (step acc x) = map fst acc @ [key x]"
      by (simp add: assms)
    have "filter (\<lambda>k. k \<notin> set (map fst acc @ [key x])) ys
        = filter (\<lambda>k. k \<noteq> key x) (filter (\<lambda>k. k \<notin> set (map fst acc)) ys)" for ys
      by (auto intro: filter_cong)
    then have "first_seen (filter (\<lambda>k. k \<notin> set (map fst (step acc x))) (map key xs))
        = filter (\<lambda>k. k \<noteq> key x)
            (first_seen (filter (\<lambda>k. k \<notin> set (map fst acc)) (map key xs)))"
      by (simp only: keys first_seen_filter)
    with False keys Cons.IH [of "step acc x"] show ?thesis
      by simp
  qed
qed

lemma group_current_foldl: "group_current acc rs = foldl current_step acc rs"
  by (induction rs arbitrary: acc) simp_all

lemma keys_current_step:
  "map fst (current_step al r)
     = (if location r \<in> set (map fst al) then map fst al else map fst al @ [location r])"
  by (simp add: current_step_def Let_def update_keys)

lemma keys_group_current:
  "map fst (group_current [] rs) = first_seen (map location rs)"
  using keys_foldl_update [of current_step location "[]" rs, OF keys_current_step]
  by (simp add: group_current_foldl)

lemma map_of_current_step:
  "map_of (current_step al r) l =
     (if l = location r
      then Some (let d = (case map_of al l of
                    None \<Rightarrow> \<lparr>count = 0, symptoms = [], user_ids = []\<rparr> | Some d \<Rightarrow> d)
                 in \<lparr>count = count d + 1, symptoms = symptoms d @ report_symptoms r,
                      user_ids = user_ids d @ [user_id r]\<rparr>)
      else map_of al l)"
  by (simp add: current_step_def Let_def update_conv')

lemma map_of_group_current:
  "map_of (group_current acc rs) l =
     (let rl = filter (\<lambda>r. location r = l) rs;
          d = (case map_of acc l of
                 None \<Rightarrow> \<lparr>count = 0, symptoms = [], user_ids = []\<rparr> | Some d \<Rightarrow> d)
      in if rl = [] then map_of acc l
         else Some \<lparr>count = count d + int (length rl),
                    symptoms = symptoms d @ concat (map report_symptoms rl),
                    user_ids = user_ids d @ map user_id rl\<rparr>)"
proof (induction rs arbitrary: acc)
  case Nil
  show ?case by simp
next
  case (Cons r rs)
  show ?case
    by (simp add: Cons.IH [of "current_step acc r"] map_of_current_step Let_def)
qed

subsection \<open>The alerts of a run\<close>

lemma score_locations_append:
  "score_locations now bl acc items
     = Inr (acc @ concat (map (\<lambda>item. case score_location now bl item of
                                  Inr (Some a) \<Rightarrow> [a] | _ \<Rightarrow> []) items))"
proof (induction items arbitrary: acc)
  case Nil
  show ?case by simp
next
  case (Cons item items)
  obtain r where r: "score_location now bl item = Inr r"
    using score_location_total by blast
  show ?case
    by (cases r) (simp_all add: r Cons.IH)
qed

lemma alert_location_score_location:
  assumes "score_location now bl item = Inr (Some a)"
  shows "alert_location a = fst item"
  using assms
  by (auto simp: score_location_def make_alert_def Let_def split: sum.splits if_splits)

text \<open>Every alert of a run is the alert of one item of \<open>current_by_location\<close>.\<close>

lemma score_locations_origin:
  assumes "score_locations now bl [] items = Inr alerts" and "a \<in> set alerts"
  shows "\<exists>item \<in> set items. score_location now bl item = Inr (Some a)"
proof -
  from assms obtain item where "item \<in> set items"
    and "a \<in> set (case score_location now bl item of Inr (Some a) \<Rightarrow> [a] | _ \<Rightarrow> [])"
    by (auto simp: score_locations_append)
  then show ?thesis
    by (auto split: sum.splits option.splits)
qed

lemma score_locations_order:
  assumes "score_locations now bl [] items = Inr alerts"
  shows "map alert_location alerts
    = map fst (filter (\<lambda>item. \<exists>a. score_location now bl item = Inr (Some a)) items)"
proof -
  have "map alert_location (concat (map (\<lambda>item. case score_location now bl item of
                                  Inr (Some a) \<Rightarrow> [a] | _ \<Rightarrow> []) items))
    = map fst (filter (\<lambda>item. \<exists>a. score_location now bl item = Inr (Some a)) items)"
  proof (induction items)
    case Nil
    show ?case by simp
  next
    case (Cons item items)
    obtain r where r: "score_location now bl item = Inr r"
      using score_location_total by blast
    show ?case
      using Cons.IH alert_location_score_location [of now bl item]
      by (cases r) (simp_all add: r)
  qed
  with assms show ?thesis
    by (simp add: score_locations_append)
qed

lemma filter_keys_distinct:
  assumes "distinct (map fst items)"
  shows "map fst (filter P items) = filter (\<lambda>k. k \<in> fst ` {i \<in> set items. P i}) (map fst items)"
proof -
  have "P i \<longleftrightarrow> fst i \<in> fst ` {i \<in> set items. P i}" if "i \<in> set items" for i
  proof
    assume "P i" with that show "fst i \<in> fst ` {i \<in> set items. P i}" by blast
  next
    assume "fst i \<in> fst ` {i \<in> set items. P i}"
    then obtain j where j: "j \<in> set items" "P j" "fst j = fst i" by auto
    from assms have "inj_on fst (set items)" by (simp add: distinct_map)
    with j that have "j = i" by (auto dest: inj_onD)
    with j show "P i" by simp
  qed
  then have "filter P items = filter (\<lambda>i. fst i \<in> fst ` {i \<in> set items. P i}) items"
    by (auto intro: filter_cong)
  then show ?thesis
    by (simp add: filter_map comp_def)
qed

text \<open>The alerts of \<open>detect_outbreaks\<close>: each one is the alert of a location of the current
  window, computed from the reports of this location in the order of the read.\<close>

lemma detect_outbreaks_origin:
  assumes "detect_outbreaks now health_reports = Inr alerts" and "a \<in> set alerts"
  shows "alert_location a \<in> location ` set (current_reports now health_reports)
    \<and> score_location now (group_baseline [] (baseline_reports now health_reports))
        (alert_location a,
         let rl = filter (\<lambda>r. location r = alert_location a)
                    (current_reports now health_reports)
         in \<lparr>count = int (length rl), symptoms = concat (map report_symptoms rl),
             user_ids = map user_id rl\<rparr>)
        = Inr (Some a)"
proof -
  let ?cur = "current_reports now health_reports"
  let ?bl = "group_baseline [] (baseline_reports now health_reports)"
  let ?l = "alert_location a"
  from assms obtain item where item: "item \<in> set (group_current [] ?cur)"
    and sc: "score_location now ?bl item = Inr (Some a)"
    using score_locations_origin [of now ?bl "group_current [] ?cur" alerts a]
    by (auto simp: detect_outbreaks_def Let_def)
  obtain d where d: "item = (?l, d)"
    using alert_location_score_location [OF sc] by (cases item) simp
  have "distinct (map fst (group_current [] ?cur))"
    by (simp add: keys_group_current distinct_first_seen)
  with item have look: "map_of (group_current [] ?cur) ?l = Some d"
    unfolding d by simp
  have "?l \<in> set (map fst (group_current [] ?cur))"
    using item unfolding d by force
  then have mem: "?l \<in> location ` set ?cur"
    by (simp add: keys_group_current set_first_seen)
  then have ne: "filter (\<lambda>r. location r = ?l) ?cur \<noteq> []"
    by (auto simp: filter_empty_conv)
  have "d = (let rl = filter (\<lambda>r. location r = ?l) ?cur
         in \<lparr>count = int (length rl), symptoms = concat (map report_symptoms rl),
             user_ids = map user_id rl\<rparr>)"
    using look ne by (simp add: map_of_group_current Let_def)
  with sc d have "score_location now ?bl
        (?l, let rl = filter (\<lambda>r. location r = ?l) ?cur
         in \<lparr>count = int (length rl), symptoms = concat (map report_symptoms rl),
             user_ids = map user_id rl\<rparr>) = Inr (Some a)"
    by (simp only:)
  with mem show ?thesis by (rule conjI)
qed

subsection \<open>The run on the table of reports\<close>

lemma example_baseline_reports:
  "baseline_reports example_now example_reports = take 2 example_reports"
  by (simp add: example_now_def example_reports_def baseline_reports_def gte_def lt_def
      timedelta_days_def)

lemma example_current_reports:
  "current_reports example_now example_reports = drop 3 example_reports"
  by (simp add: example_now_def example_reports_def current_reports_def gte_def
      timedelta_days_def)

lemma example_group_baseline:
  "group_baseline [] (baseline_reports example_now example_reports)
     = [(''Hostel A'', [(0, 1), (1, 1)])]"
  by (simp add: example_baseline_reports)
    (simp add: example_reports_def baseline_step_def report_date_def)

lemma example_group_current:
  "group_current [] (current_reports example_now example_reports)
     = [(''Canteen'', \<lparr>count = 1, symptoms = [''cough''], user_ids = [''u3'']\<rparr>),
        (''Hostel B'', \<lparr>count = 3, symptoms = [''fever'', ''cough'', ''fever'', ''cough''],
           user_ids = [''u4'', ''u4'', ''u5'']\<rparr>),
        (''Hostel A'', \<lparr>count = 4,
           symptoms = [''cough'', ''fever'', ''fever'', ''headache'', ''fever'', ''cough''],
           user_ids = [''u1'', ''u2'', ''u1'', ''u6'']\<rparr>)]"
  by (simp add: example_current_reports)
    (simp add: example_reports_def current_step_def report_symptoms_def)

lemma example_top_symptoms:
  "top_symptoms [''fever'', ''cough'', ''fever'', ''cough''] = [''fever'', ''cough'']"
  "top_symptoms [''cough'', ''fever'', ''fever'', ''headache'', ''fever'', ''cough'']
     = [''fever'', ''cough'', ''headache'']"
  by (simp_all add: top_symptoms_def count_symptom_def sorted_by_count_reverse_def)

lemma example_stats:
  "location_stats c (daily_counts_of [(''Hostel A'', [(0, 1), (1, 1)])] ''Canteen'')
     = Inr (0, 1, real_of_int c)"
  "location_stats c (daily_counts_of [(''Hostel A'', [(0, 1), (1, 1)])] ''Hostel B'')
     = Inr (0, 1, real_of_int c)"
  "location_stats c (daily_counts_of [(''Hostel A'', [(0, 1), (1, 1)])] ''Hostel A'')
     = Inr (1, 1, real_of_int c - 1)"
  by (simp_all add: daily_counts_of_def stats_seven_zeros)
    (simp add: location_stats_def statistics_mean_def statistics_stdev_def truediv_def)

lemma example_detect_outbreaks:
  "detect_outbreaks example_now example_reports = Inr [example_alert_B, example_alert_A]"
proof -
  have r: "py_round 60 (Suc 0) = 60" "py_round 0 2 = 0" "py_round 1 2 = 1" "py_round 3 2 = 3"
    using py_round_of_int [of 60 "Suc 0"] py_round_of_int [of 0 2] py_round_of_int [of 1 2]
      py_round_of_int [of 3 2] by simp_all
  have c: "score_location example_now [(''Hostel A'', [(0, 1), (1, 1)])]
      (''Canteen'', \<lparr>count = 1, symptoms = [''cough''], user_ids = [''u3'']\<rparr>) = Inr None"
    by (simp add: score_location_def example_stats)
  have b: "score_location example_now [(''Hostel A'', [(0, 1), (1, 1)])]
      (''Hostel B'', \<lparr>count = 3, symptoms = [''fever'', ''cough'', ''fever'', ''cough''],
           user_ids = [''u4'', ''u4'', ''u5'']\<rparr>) = Inr (Some example_alert_B)"
    by (simp add: score_location_def example_stats make_alert_def example_top_symptoms r
        example_alert_B_def example_now_def)
  have a: "score_location example_now [(''Hostel A'', [(0, 1), (1, 1)])]
      (''Hostel A'', \<lparr>count = 4,
           symptoms = [''cough'', ''fever'', ''fever'', ''headache'', ''fever'', ''cough''],
           user_ids = [''u1'', ''u2'', ''u1'', ''u6'']\<rparr>) = Inr (Some example_alert_A)"
    by (simp add: score_location_def example_stats make_alert_def example_top_symptoms r
        example_alert_A_def example_now_def card_insert_if)
  show ?thesis
    by (simp add: detect_outbreaks_def example_group_baseline example_group_current a b c)
qed

subsection \<open>Risk score\<close>

text \<open>
  Claim C7. For every returned alert, with \<open>z\<close> the z-score of its location, the risk score
  is \<open>min (z * 20) 100\<close> rounded to one decimal place: a multiple of one tenth at distance at
  most one twentieth of it. The risk score lies between 0 and 100.
\<close>

theorem C7_risk_score_range:
  assumes "detect_outbreaks now health_reports = Inr alerts" and "a \<in> set alerts"
  shows "\<exists>mean std_dev z.
      location_stats (current_count (debug a))
        (daily_counts_of (group_baseline [] (baseline_reports now health_reports))
           (alert_location a)) = Inr (mean, std_dev, z)
    \<and> 2 < z
    \<and> risk_score a = py_round (min (z * 20) 100) 1
    \<and> (\<exists>k :: int. risk_score a = of_int k / 10)
    \<and> \<bar>risk_score a - min (z * 20) 100\<bar> \<le> 1 / 20
    \<and> 0 \<le> risk_score a \<and> risk_score a \<le> 100"
proof -
  let ?bl = "group_baseline [] (baseline_reports now health_reports)"
  obtain d where "score_location now ?bl (alert_location a, d) = Inr (Some a)"
    using detect_outbreaks_origin [OF assms] by blast
  then obtain m s z where st: "location_stats (count d) (daily_counts_of ?bl (alert_location a))
      = Inr (m, s, z)"
    and z: "2 < z" and a: "a = make_alert now (alert_location a) d m s z"
    by (rule score_location_SomeD)
  have cc: "current_count (debug a) = count d"
    by (subst a) (simp add: make_alert_def Let_def)
  have risk: "risk_score a = py_round (min (z * 20) 100) 1"
    by (subst a) (simp add: risk_score_make_alert)
  have tenth: "\<exists>k :: int. risk_score a = of_int k / 10"
    unfolding risk by (simp add: py_round_def)
  have close: "\<bar>risk_score a - min (z * 20) 100\<bar> \<le> 1 / 20"
    unfolding risk by (rule py_round_close)
  have "of_int 40 \<le> min (z * 20) 100" and "min (z * 20) 100 \<le> of_int 100"
    using z by simp_all
  then have "py_round (of_int 40) 1 \<le> risk_score a" and "risk_score a \<le> py_round (of_int 100) 1"
    unfolding risk by (simp_all only: py_round_mono)
  then have range: "0 \<le> risk_score a \<and> risk_score a \<le> 100"
    unfolding py_round_of_int by simp
  show ?thesis
    using st z risk tenth close range unfolding cc by blast
qed

text \<open>The alert of Hostel B in the run on the table of reports: z-score 3, risk score 60.\<close>

theorem C7_risk_score_range_witness:
  "detect_outbreaks example_now example_reports = Inr [example_alert_B, example_alert_A]
   \<and> example_alert_B \<in> set [example_alert_B, example_alert_A]
   \<and> (\<exists>z. 2 < z \<and> risk_score example_alert_B = py_round (min (z * 20) 100) 1)
   \<and> 0 \<le> risk_score example_alert_B \<and> risk_score example_alert_B \<le> 100"
proof -
  have m: "example_alert_B \<in> set [example_alert_B, example_alert_A]"
    by simp
  show ?thesis
    using C7_risk_score_range [OF example_detect_outbreaks m] example_detect_outbreaks m
    by blast
qed

subsection \<open>Affected students\<close>

text \<open>
  Claim C9. For every returned alert, \<open>affected_students\<close> is the number of distinct user
  ids among the reports of the current window at the location of the alert, and it is at
  most the number of these reports.
\<close>

theorem C9_affected_students_distinct:
  assumes "detect_outbreaks now health_reports = Inr alerts" and "a \<in> set alerts"
  shows "affected_students a
      = card (user_id ` {r \<in> set (current_reports now health_reports).
                          location r = alert_location a})
    \<and> affected_students a
      \<le> length (filter (\<lambda>r. location r = alert_location a)
                  (current_reports now health_reports))
    \<and> current_count (debug a)
      = int (length (filter (\<lambda>r. location r = alert_location a)
                  (current_reports now health_reports)))"
proof -
  let ?bl = "group_baseline [] (baseline_reports now health_reports)"
  let ?rl = "filter (\<lambda>r. location r = alert_location a) (current_reports now health_reports)"
  let ?d = "\<lparr>count = int (length ?rl), symptoms = concat (map report_symptoms ?rl),
             user_ids = map user_id ?rl\<rparr>"
  have "score_location now ?bl (alert_location a, ?d) = Inr (Some a)"
    using detect_outbreaks_origin [OF assms] by (simp add: Let_def)
  then obtain m s z where a: "a = make_alert now (alert_location a) ?d m s z"
    by (rule score_location_SomeD)
  have aff: "affected_students a = card (user_id ` set ?rl)"
    by (subst a) (simp add: make_alert_def Let_def)
  have cc: "current_count (debug a) = int (length ?rl)"
    by (subst a) (simp add: make_alert_def Let_def)
  have "card (user_id ` set ?rl) \<le> card (set ?rl)"
    by (rule card_image_le) simp
  also have "\<dots> \<le> length ?rl"
    by (rule card_length)
  finally have le: "affected_students a \<le> length ?rl"
    by (simp only: aff)
  have "set ?rl = {r \<in> set (current_reports now health_reports). location r = alert_location a}"
    by auto
  with aff le cc show ?thesis by simp
qed

text \<open>The alert of Hostel A in the run on the table of reports: four reports by three
  students.\<close>

theorem C9_affected_students_distinct_witness:
  "detect_outbreaks example_now example_reports = Inr [example_alert_B, example_alert_A]
   \<and> example_alert_A \<in> set [example_alert_B, example_alert_A]
   \<and> affected_students example_alert_A = 3
   \<and> card (user_id ` {r \<in> set (current_reports example_now example_reports).
                          location r = ''Hostel A''}) = 3
   \<and> length (filter (\<lambda>r. location r = ''Hostel A'')
                (current_reports example_now example_reports)) = 4"
proof -
  have m: "example_alert_A \<in> set [example_alert_B, example_alert_A]"
    by simp
  have l: "alert_location example_alert_A = ''Hostel A''"
    and n: "affected_students example_alert_A = 3"
    and c: "current_count (debug example_alert_A) = 4"
    by (simp_all add: example_alert_A_def)
  show ?thesis
    using C9_affected_students_distinct [OF example_detect_outbreaks m]
      example_detect_outbreaks m
    unfolding l n c by simp
qed

subsection \<open>Order of the alerts\<close>

lemma first_index_Cons:
  "first_index (x # xs) y = (if y = x then 0 else Suc (first_index xs y))"
  by (simp add: first_index_def)

lemma sorted_wrt_first_seen:
  "sorted_wrt (\<lambda>a b. first_index xs a < first_index xs b) (first_seen xs)"
proof (induction xs)
  case Nil
  show ?case by simp
next
  case (Cons x xs)
  have "sorted_wrt (\<lambda>a b. first_index xs a < first_index xs b)
      (filter (\<lambda>y. y \<noteq> x) (first_seen xs))"
    using Cons.IH by (rule sorted_wrt_filter)
  then have "sorted_wrt (\<lambda>a b. first_index (x # xs) a < first_index (x # xs) b)
      (filter (\<lambda>y. y \<noteq> x) (first_seen xs))"
    by (rule sorted_wrt_mono_rel [rotated]) (simp add: first_index_Cons)
  then show ?case
    by (simp add: first_index_Cons)
qed

text \<open>
  Claim C10. The locations of the returned alerts are the alerting locations in the order
  in which the locations first appear in the reports of the current window, as the store
  returned them: one alert per location, ordered by the position of the first report of the
  location. The list is a function of the instant and of the rows read.
\<close>

theorem C10_alert_order:
  assumes "detect_outbreaks now health_reports = Inr alerts"
  shows "map alert_location alerts
      = filter (\<lambda>l. l \<in> alert_location ` set alerts)
          (first_seen (map location (current_reports now health_reports)))
    \<and> distinct (map alert_location alerts)
    \<and> sorted_wrt (\<lambda>a b.
          first_index (map location (current_reports now health_reports)) (alert_location a)
        < first_index (map location (current_reports now health_reports)) (alert_location b))
        alerts"
proof -
  let ?bl = "group_baseline [] (baseline_reports now health_reports)"
  let ?locs = "map location (current_reports now health_reports)"
  let ?items = "group_current [] (current_reports now health_reports)"
  let ?P = "\<lambda>item. \<exists>a. score_location now ?bl item = Inr (Some a)"
  have keys: "map fst ?items = first_seen ?locs"
    by (rule keys_group_current)
  then have dist: "distinct (map fst ?items)"
    by (simp add: distinct_first_seen)
  have run: "score_locations now ?bl [] ?items = Inr alerts"
    using assms by (simp add: detect_outbreaks_def Let_def)
  have ord: "map alert_location alerts = map fst (filter ?P ?items)"
    using run by (rule score_locations_order)
  then have "set (map alert_location alerts) = fst ` {i \<in> set ?items. ?P i}"
    by (simp only: set_map set_filter)
  then have img: "fst ` {i \<in> set ?items. ?P i} = alert_location ` set alerts"
    by simp
  have eq: "map alert_location alerts
      = filter (\<lambda>l. l \<in> alert_location ` set alerts) (first_seen ?locs)"
    using filter_keys_distinct [OF dist, of ?P] by (simp only: ord img keys)
  have d: "distinct (map alert_location alerts)"
    by (subst eq) (simp add: distinct_first_seen)
  have "sorted_wrt (\<lambda>k k'. first_index ?locs k < first_index ?locs k')
      (map alert_location alerts)"
    by (subst eq) (rule sorted_wrt_filter [OF sorted_wrt_first_seen])
  then have s: "sorted_wrt (\<lambda>a b. first_index ?locs (alert_location a)
        < first_index ?locs (alert_location b)) alerts"
    by (simp only: sorted_wrt_map)
  from eq d s show ?thesis by blast
qed

text \<open>The run on the table of reports: the Canteen is seen first and does not alert, then
  Hostel B, then Hostel A.\<close>

theorem C10_alert_order_witness:
  "detect_outbreaks example_now example_reports = Inr [example_alert_B, example_alert_A]
   \<and> first_seen (map location (current_reports example_now example_reports))
       = [''Canteen'', ''Hostel B'', ''Hostel A'']
   \<and> map alert_location [example_alert_B, example_alert_A]
       = filter (\<lambda>l. l \<in> alert_location ` set [example_alert_B, example_alert_A])
           [''Canteen'', ''Hostel B'', ''Hostel A'']"
proof -
  have f: "first_seen (map location (current_reports example_now example_reports))
       = [''Canteen'', ''Hostel B'', ''Hostel A'']"
    by (simp add: example_current_reports) (simp add: example_reports_def)
  show ?thesis
    using C10_alert_order [OF example_detect_outbreaks] example_detect_outbreaks
    unfolding f by blast
qed

subsection \<open>Most frequent symptoms\<close>

lemma count_symptoms_foldl: "count_symptoms acc ss = foldl count_symptom acc ss"
  by (induction ss arbitrary: acc) simp_all

lemma keys_count_symptom:
  "map fst (count_symptom al s)
     = (if s \<in> set (map fst al) then map fst al else map fst al @ [s])"
  by (simp add: count_symptom_def update_keys)

lemma keys_count_symptoms: "map fst (count_symptoms [] ss) = first_seen ss"
  using keys_foldl_update [of count_symptom "\<lambda>s. s" "[]" ss, OF keys_count_symptom]
  by (simp add: count_symptoms_foldl)

lemma map_of_count_symptom:
  "map_of (count_symptom al x) s =
     (if s = x then Some ((case map_of al x of None \<Rightarrow> 0 | Some c \<Rightarrow> c) + 1)
      else map_of al s)"
  by (simp add: count_symptom_def update_conv')

lemma map_of_count_symptoms:
  "map_of (count_symptoms acc ss) s =
     (if s \<in> set ss
      then Some ((case map_of acc s of None \<Rightarrow> 0 | Some c \<Rightarrow> c) + int (count_list ss s))
      else map_of acc s)"
proof (induction ss arbitrary: acc)
  case Nil
  show ?case by simp
next
  case (Cons x ss)
  show ?case
    by (simp add: Cons.IH [of "count_symptom acc x"] map_of_count_symptom)
qed

lemma alist_by_keys:
  assumes "\<And>k v. (k, v) \<in> set al \<Longrightarrow> v = f k"
  shows "al = map (\<lambda>k. (k, f k)) (map fst al)"
  using assms by (induction al) auto

text \<open>The frequency dict: the distinct symptoms in the order of their first appearance,
  each with the number of its occurrences.\<close>

lemma count_symptoms_eq:
  "count_symptoms [] ss = map (\<lambda>s. (s, int (count_list ss s))) (first_seen ss)"
proof -
  have d: "distinct (map fst (count_symptoms [] ss))"
    by (simp add: keys_count_symptoms distinct_first_seen)
  have "v = int (count_list ss k)" if "(k, v) \<in> set (count_symptoms [] ss)" for k v
  proof -
    from that d have "map_of (count_symptoms [] ss) k = Some v" by simp
    then show ?thesis
      by (simp add: map_of_count_symptoms split: if_splits)
  qed
  then have "count_symptoms [] ss
      = map (\<lambda>s. (s, int (count_list ss s))) (map fst (count_symptoms [] ss))"
    by (rule alist_by_keys)
  then show ?thesis
    by (simp only: keys_count_symptoms)
qed

lemma insort_key_map:
  "insort_key g (h x) (map h ys) = map h (insort_key (\<lambda>y. g (h y)) x ys)"
  by (induction ys) simp_all

lemma sort_key_map: "sort_key g (map h xs) = map h (sort_key (\<lambda>y. g (h y)) xs)"
  by (induction xs) (simp_all add: insort_key_map)

text \<open>A stable sort: elements are in the order of their keys, and elements of equal key
  in the order of the input.\<close>

lemma sorted_wrt_insort_key:
  assumes "sorted_wrt R ys"
    and "\<And>y. y \<in> set ys \<Longrightarrow> f x \<le> f y \<Longrightarrow> R x y"
    and "\<And>y. y \<in> set ys \<Longrightarrow> f y < f x \<Longrightarrow> R y x"
    and "\<And>y z. R y z \<Longrightarrow> f y \<le> f z"
  shows "sorted_wrt R (insort_key f x ys)"
  using assms(1-3)
proof (induction ys)
  case Nil
  show ?case by simp
next
  case (Cons y ys)
  show ?case
  proof (cases "f x \<le> f y")
    case True
    have "R x z" if "z \<in> set (y # ys)" for z
    proof -
      have "f y \<le> f z"
        using that Cons.prems(1) assms(4) by auto
      with True have "f x \<le> f z" by simp
      with that show ?thesis by (rule Cons.prems(2))
    qed
    with True Cons.prems(1) show ?thesis by simp
  next
    case False
    then have "R y x" using Cons.prems(3) by simp
    moreover have "sorted_wrt R (insort_key f x ys)"
      using Cons.prems by (intro Cons.IH) auto
    ultimately show ?thesis
      using False Cons.prems(1) by (auto simp: set_insort_key)
  qed
qed

lemma sort_key_stable_order:
  fixes f :: "'a \<Rightarrow> int"
  assumes "sorted_wrt Q xs"
  shows "sorted_wrt (\<lambda>a b. f a < f b \<or> (f a = f b \<and> Q a b)) (sort_key f xs)"
  using assms
proof (induction xs)
  case Nil
  show ?case by simp
next
  case (Cons x xs)
  then have s: "sorted_wrt (\<lambda>a b. f a < f b \<or> (f a = f b \<and> Q a b)) (sort_key f xs)"
    and q: "\<And>y. y \<in> set xs \<Longrightarrow> Q x y"
    by simp_all
  from s have "sorted_wrt (\<lambda>a b. f a < f b \<or> (f a = f b \<and> Q a b))
      (insort_key f x (sort_key f xs))"
    by (rule sorted_wrt_insort_key) (use q in auto)
  then show ?case by simp
qed

text \<open>The whole ranking, of which \<open>top_symptoms\<close> is the first three entries.\<close>

lemma top_symptoms_ranking:
  "top_symptoms syms
     = take 3 (sort_key (\<lambda>s. - int (count_list syms s)) (first_seen syms))"
  by (simp add: top_symptoms_def sorted_by_count_reverse_def count_symptoms_eq sort_key_map
      take_map comp_def)

lemma symptoms_ranking_sorted:
  "sorted_wrt (\<lambda>s t. count_list syms t < count_list syms s
        \<or> (count_list syms s = count_list syms t \<and> first_index syms s < first_index syms t))
     (sort_key (\<lambda>s. - int (count_list syms s)) (first_seen syms))"
  using sort_key_stable_order [OF sorted_wrt_first_seen,
      of "\<lambda>s. - int (count_list syms s)" syms]
  by simp

text \<open>
  Claim C8. For every returned alert, \<open>common_symptoms\<close> is the first three entries of the
  ranking of the symptoms of the current reports at the location of the alert: each
  symptom once, a more frequent symptom before a less frequent one, and symptoms of equal
  frequency in the order of their first appearance. It has at most three entries, and it is
  empty when these reports have no symptoms; a report without the key is no error.
\<close>

theorem C8_top_symptoms_ranking:
  assumes "detect_outbreaks now health_reports = Inr alerts" and "a \<in> set alerts"
  shows "let syms = concat (map report_symptoms
                      (filter (\<lambda>r. location r = alert_location a)
                         (current_reports now health_reports)))
    in (\<exists>ranked.
          set ranked = set syms
        \<and> distinct ranked
        \<and> sorted_wrt (\<lambda>s t. count_list syms t < count_list syms s
              \<or> (count_list syms s = count_list syms t
                  \<and> first_index syms s < first_index syms t)) ranked
        \<and> common_symptoms a = take 3 ranked)
     \<and> length (common_symptoms a) \<le> 3
     \<and> (syms = [] \<longrightarrow> common_symptoms a = [])"
proof -
  let ?bl = "group_baseline [] (baseline_reports now health_reports)"
  let ?rl = "filter (\<lambda>r. location r = alert_location a) (current_reports now health_reports)"
  let ?syms = "concat (map report_symptoms ?rl)"
  let ?d = "\<lparr>count = int (length ?rl), symptoms = ?syms, user_ids = map user_id ?rl\<rparr>"
  let ?ranked = "sort_key (\<lambda>s. - int (count_list ?syms s)) (first_seen ?syms)"
  have "score_location now ?bl (alert_location a, ?d) = Inr (Some a)"
    using detect_outbreaks_origin [OF assms] by (simp add: Let_def)
  then obtain m s z where a: "a = make_alert now (alert_location a) ?d m s z"
    by (rule score_location_SomeD)
  have "common_symptoms a = top_symptoms ?syms"
    by (subst a) (simp add: make_alert_def Let_def)
  then have top: "common_symptoms a = take 3 ?ranked"
    by (simp only: top_symptoms_ranking)
  have st: "set ?ranked = set ?syms"
    by (simp add: set_first_seen)
  have di: "distinct ?ranked"
    by (simp add: distinct_first_seen)
  have so: "sorted_wrt (\<lambda>s t. count_list ?syms t < count_list ?syms s
              \<or> (count_list ?syms s = count_list ?syms t
                  \<and> first_index ?syms s < first_index ?syms t)) ?ranked"
    by (rule symptoms_ranking_sorted)
  have ex: "\<exists>ranked. set ranked = set ?syms \<and> distinct ranked
        \<and> sorted_wrt (\<lambda>s t. count_list ?syms t < count_list ?syms s
              \<or> (count_list ?syms s = count_list ?syms t
                  \<and> first_index ?syms s < first_index ?syms t)) ranked
        \<and> common_symptoms a = take 3 ranked"
    using st di so top by blast
  have len: "length (common_symptoms a) \<le> 3"
    by (simp add: top)
  have emp: "?syms = [] \<longrightarrow> common_symptoms a = []"
  proof
    assume e: "?syms = []"
    show "common_symptoms a = []"
      unfolding top e by simp
  qed
  show ?thesis
    unfolding Let_def using ex len emp by (intro conjI)
qed

text \<open>The alert of Hostel B in the run on the table of reports: fever and cough occur
  twice each, fever first; the report without the key adds nothing.\<close>

theorem C8_top_symptoms_ranking_witness:
  "detect_outbreaks example_now example_reports = Inr [example_alert_B, example_alert_A]
   \<and> example_alert_B \<in> set [example_alert_B, example_alert_A]
   \<and> concat (map report_symptoms (filter (\<lambda>r. location r = ''Hostel B'')
        (current_reports example_now example_reports)))
       = [''fever'', ''cough'', ''fever'', ''cough'']
   \<and> (\<exists>ranked. set ranked = {''fever'', ''cough''} \<and> distinct ranked
         \<and> common_symptoms example_alert_B = take 3 ranked)
   \<and> common_symptoms example_alert_B = [''fever'', ''cough'']"
proof -
  have m: "example_alert_B \<in> set [example_alert_B, example_alert_A]"
    by simp
  have l: "alert_location example_alert_B = ''Hostel B''"
    and c: "common_symptoms example_alert_B = [''fever'', ''cough'']"
    by (simp_all add: example_alert_B_def)
  have s: "concat (map report_symptoms (filter (\<lambda>r. location r = ''Hostel B'')
        (current_reports example_now example_reports)))
       = [''fever'', ''cough'', ''fever'', ''cough'']"
    by (simp add: example_current_reports) (simp add: example_reports_def report_symptoms_def)
  have "\<exists>ranked. set ranked = {''fever'', ''cough''} \<and> distinct ranked
         \<and> common_symptoms example_alert_B = take 3 ranked"
    using C8_top_symptoms_ranking [OF example_detect_outbreaks m]
    unfolding l s Let_def by auto
  with m s c show ?thesis
    using example_detect_outbreaks by simp
qed

subsection \<open>The read of the current window\<close>

text \<open>
  Claim C1 says that the read of the current window returns the reports with
  \<open>now - 24h \<le> created_at < now\<close>. The query of step 3 has the lower bound only. At the
  instant of day 14, a table with one report dated at this very instant and one report dated
  a microsecond later: the read returns both, and both are counted for their location.
\<close>

theorem C1_upper_bound_counterexample:
  "current_reports 1209600000000
     [\<lparr>location = ''Hostel A'', created_at = 1209600000000, symptoms_opt = Some [''fever''],
       user_id = ''u1''\<rparr>,
      \<lparr>location = ''Hostel A'', created_at = 1209600000001, symptoms_opt = Some [''cough''],
       user_id = ''u2''\<rparr>]
   = [\<lparr>location = ''Hostel A'', created_at = 1209600000000, symptoms_opt = Some [''fever''],
       user_id = ''u1''\<rparr>,
      \<lparr>location = ''Hostel A'', created_at = 1209600000001, symptoms_opt = Some [''cough''],
       user_id = ''u2''\<rparr>]
   \<and> \<not> created_at \<lparr>location = ''Hostel A'', created_at = 1209600000000,
          symptoms_opt = Some [''fever''], user_id = ''u1''\<rparr> < 1209600000000
   \<and> group_current []
        (current_reports 1209600000000
          [\<lparr>location = ''Hostel A'', created_at = 1209600000000,
            symptoms_opt = Some [''fever''], user_id = ''u1''\<rparr>,
           \<lparr>location = ''Hostel A'', created_at = 1209600000001,
            symptoms_opt = Some [''cough''], user_id = ''u2''\<rparr>])
     = [(''Hostel A'', \<lparr>count = 2, symptoms = [''fever'', ''cough''],
          user_ids = [''u1'', ''u2'']\<rparr>)]"
  by (simp add: current_reports_def gte_def timedelta_days_def current_step_def
      report_symptoms_def)

text \<open>
  Claim C1, amended. The read of the current window returns exactly the reports with
  \<open>now - 24h \<le> created_at\<close>, in the order of the table: a report dated \<open>now - 24h\<close> is
  included, a report dated before is not, and there is no upper bound, so that a report
  of the table dated \<open>now\<close> or later is included as well.
\<close>

theorem C1_current_window_lower_bound_only:
  "current_reports now health_reports
     = filter (\<lambda>r. now - 86400000000 \<le> created_at r) health_reports
   \<and> (\<forall>r \<in> set health_reports.
         created_at r = now - 86400000000 \<longrightarrow> r \<in> set (current_reports now health_reports))
   \<and> (\<forall>r \<in> set health_reports.
         created_at r < now - 86400000000 \<longrightarrow> r \<notin> set (current_reports now health_reports))
   \<and> (\<forall>r \<in> set health_reports.
         now \<le> created_at r \<longrightarrow> r \<in> set (current_reports now health_reports))"
  by (simp add: current_reports_def gte_def timedelta_days_def)

text \<open>In the table of reports the report at the Canteen is dated \<open>now - 24h\<close>; the second
  table holds a report dated \<open>now\<close>.\<close>

theorem C1_current_window_lower_bound_only_witness:
  "\<lparr>location = ''Canteen'', created_at = 1123200000000, symptoms_opt = Some [''cough''],
     user_id = ''u3''\<rparr> \<in> set example_reports
   \<and> 1123200000000 = example_now - 86400000000
   \<and> \<lparr>location = ''Canteen'', created_at = 1123200000000, symptoms_opt = Some [''cough''],
       user_id = ''u3''\<rparr> \<in> set (current_reports example_now example_reports)
   \<and> \<lparr>location = ''Hostel A'', created_at = 1209600000000, symptoms_opt = None,
       user_id = ''u1''\<rparr>
     \<in> set (current_reports 1209600000000
          [\<lparr>location = ''Hostel A'', created_at = 1209600000000, symptoms_opt = None,
            user_id = ''u1''\<rparr>])"
proof -
  let ?c = "\<lparr>location = ''Canteen'', created_at = 1123200000000,
     symptoms_opt = Some [''cough''], user_id = ''u3''\<rparr>"
  let ?h = "\<lparr>location = ''Hostel A'', created_at = 1209600000000, symptoms_opt = None,
       user_id = ''u1''\<rparr>"
  have c: "?c \<in> set example_reports"
    by (simp add: example_reports_def)
  have e: "1123200000000 = example_now - 86400000000"
    by (simp add: example_now_def)
  have "\<forall>r \<in> set example_reports. created_at r = example_now - 86400000000
      \<longrightarrow> r \<in> set (current_reports example_now example_reports)"
    using C1_current_window_lower_bound_only [of example_now example_reports] by blast
  moreover have "created_at ?c = example_now - 86400000000"
    by (simp add: example_now_def)
  ultimately have r: "?c \<in> set (current_reports example_now example_reports)"
    using c by blast
  have h: "?h \<in> set (current_reports 1209600000000 [?h])"
    using C1_current_window_lower_bound_only [of 1209600000000 "[?h]"]
    by simp
  from c e r h show ?thesis
    by (intro conjI)
qed

end
